theory Spec2Isabelle
  imports Complex_Main
begin

section \<open>The statistics endpoint \<open>run_stats\<close> of app.py\<close>

text \<open>
  The handler \<open>run_stats\<close> and its helpers \<open>descriptives\<close> and \<open>json_error\<close> are
  embedded as HOL functions. The handler is written against Python's strings, pandas,
  numpy, scipy, statsmodels and scikit-posthocs; what it asks of them is modelled as
  follows.
  \<^item> A float that is not NaN is an infinity or a real number (\<open>num\<close>); a float is
    \<open>num option\<close>, with \<open>None\<close> for NaN, the missing marker. An arithmetic operation on
    two numbers yields the rounding of the exact result; the rounding to float64, which
    overflows to an infinity, is a parameter (\<open>round64\<close>). The sign of a zero is not
    modelled.
  \<^item> A cell of a parsed table is missing, a float that is not NaN, or a string (\<open>cell\<close>).
  \<^item> \<open>str.strip\<close> and \<open>str.lower\<close>, the CSV parser, the parser of numeric strings, the
    mean and the standard deviation of a group, and the statistical procedures are
    parameters of the model (\<open>pylib\<close>); a procedure that raises returns \<open>Inl\<close> of the
    exception's text.
  \<^item> An exception that no \<open>try\<close> of the handler catches is the result \<open>Inl\<close> of the
    handler itself.
\<close>

subsection \<open>Floats\<close>

datatype num = NInf | Fin real | PInf

type_synonym pyfloat = "num option"

text \<open>IEEE arithmetic on two floats that are not NaN, with the rounding \<open>rnd\<close> of an exact
  result: the sum of the two infinities, zero times an infinity, zero over zero and an
  infinity over an infinity are NaN; a number that is not zero over zero is an infinity
  (the zero taken as positive).\<close>

fun sign_of :: "num \<Rightarrow> int" where
  "sign_of NInf = - 1"
| "sign_of PInf = 1"
| "sign_of (Fin a) = (if a < 0 then - 1 else if a = 0 then 0 else 1)"

fun neg :: "num \<Rightarrow> num" where
  "neg NInf = PInf"
| "neg PInf = NInf"
| "neg (Fin a) = Fin (- a)"

fun inf_of :: "int \<Rightarrow> pyfloat" where
  "inf_of s = (if s = 0 then None else if 0 < s then Some PInf else Some NInf)"

fun add64 :: "(real \<Rightarrow> num) \<Rightarrow> num \<Rightarrow> num \<Rightarrow> pyfloat" where
  "add64 rnd (Fin a) (Fin b) = Some (rnd (a + b))"
| "add64 rnd PInf NInf = None"
| "add64 rnd NInf PInf = None"
| "add64 rnd PInf y = Some PInf"
| "add64 rnd NInf y = Some NInf"
| "add64 rnd (Fin a) y = Some y"

fun mul64 :: "(real \<Rightarrow> num) \<Rightarrow> num \<Rightarrow> num \<Rightarrow> pyfloat" where
  "mul64 rnd (Fin a) (Fin b) = Some (rnd (a * b))"
| "mul64 rnd x y = inf_of (sign_of x * sign_of y)"

fun div64 :: "(real \<Rightarrow> num) \<Rightarrow> num \<Rightarrow> num \<Rightarrow> pyfloat" where
  "div64 rnd (Fin a) (Fin b) = (if b = 0 then inf_of (sign_of (Fin a)) else Some (rnd (a / b)))"
| "div64 rnd (Fin a) y = Some (Fin 0)"
| "div64 rnd x (Fin b) = inf_of (sign_of x * (if b < 0 then - 1 else 1))"
| "div64 rnd x y = None"

subsection \<open>Tables\<close>

datatype cell = NA | Num num | Str string

text \<open>A parsed table (\<open>pd.DataFrame\<close>): the header and the rows. A row shorter than the
  header reads as missing in the columns it lacks, as \<open>read_csv\<close> fills it.\<close>

record dataframe =
  columns :: "string list"
  rows :: "cell list list"

text \<open>The working table after line 103--105: the group column and the value column, the
  latter of dtype float64 with no missing entry.\<close>

type_synonym frame = "(cell \<times> num) list"

type_synonym anova_dict = "(string \<times> (string \<times> pyfloat) list) list"
type_synonym dunn_dict = "(cell \<times> (cell \<times> pyfloat) list) list"

subsection \<open>Built-ins and libraries\<close>

text \<open>The built-in and library calls of the handler. \<open>grp_mean\<close> and \<open>grp_std\<close> are the
  aggregations \<open>mean\<close> and \<open>std\<close> of \<open>groupby\<close> on the values of one group, for the group
  sizes at which they are not NaN by their definition. Each statistical procedure gets
  the arguments the handler passes and returns its result or the text of the exception it
  raises.\<close>

record pylib =
  str_strip :: "string \<Rightarrow> string"
  str_lower :: "string \<Rightarrow> string"
  read_csv :: "string \<Rightarrow> string + dataframe"
  str_to_float :: "string \<Rightarrow> pyfloat"
  round64 :: "real \<Rightarrow> num"
  grp_mean :: "num list \<Rightarrow> pyfloat"
  grp_std :: "num list \<Rightarrow> pyfloat"
  ttest_ind :: "num list \<Rightarrow> num list \<Rightarrow> string + pyfloat \<times> pyfloat"
  ols_anova_lm :: "string \<Rightarrow> string \<Rightarrow> string \<Rightarrow> frame \<Rightarrow> string + anova_dict"
  pairwise_tukeyhsd :: "num list \<Rightarrow> cell list \<Rightarrow> string + string"
  kruskal :: "num list list \<Rightarrow> string + pyfloat \<times> pyfloat"
  posthoc_dunn :: "frame \<Rightarrow> string \<Rightarrow> string \<Rightarrow> string + dunn_dict"

text \<open>The operations on floats: NaN in, NaN out.\<close>

definition fadd :: "pylib \<Rightarrow> pyfloat \<Rightarrow> pyfloat \<Rightarrow> pyfloat" where
  "fadd L x y = (case (x, y) of (Some a, Some b) \<Rightarrow> add64 (round64 L) a b | _ \<Rightarrow> None)"

definition fsub :: "pylib \<Rightarrow> pyfloat \<Rightarrow> pyfloat \<Rightarrow> pyfloat" where
  "fsub L x y = (case (x, y) of (Some a, Some b) \<Rightarrow> add64 (round64 L) a (neg b) | _ \<Rightarrow> None)"

definition fmul :: "pylib \<Rightarrow> pyfloat \<Rightarrow> pyfloat \<Rightarrow> pyfloat" where
  "fmul L x y = (case (x, y) of (Some a, Some b) \<Rightarrow> mul64 (round64 L) a b | _ \<Rightarrow> None)"

definition fdiv :: "pylib \<Rightarrow> pyfloat \<Rightarrow> pyfloat \<Rightarrow> pyfloat" where
  "fdiv L x y = (case (x, y) of (Some a, Some b) \<Rightarrow> div64 (round64 L) a b | _ \<Rightarrow> None)"

text \<open>Python's \<open>==\<close> on floats: NaN equals nothing, itself included.\<close>

fun feq :: "pyfloat \<Rightarrow> pyfloat \<Rightarrow> bool" where
  "feq (Some a) (Some b) = (a = b)"
| "feq _ _ = False"

subsection \<open>pandas operations\<close>

text \<open>\<open>Series.unique()\<close>: the distinct entries in the order of their first appearance.\<close>

fun unique :: "'a list \<Rightarrow> 'a list" where
  "unique [] = []"
| "unique (x # xs) = x # unique (filter (\<lambda>y. y \<noteq> x) xs)"

text \<open>The order in which \<open>groupby\<close> sorts its keys: numbers before strings, numbers by
  value, strings by code point.\<close>

fun str_le :: "string \<Rightarrow> string \<Rightarrow> bool" where
  "str_le [] _ = True"
| "str_le (a # as) [] = False"
| "str_le (a # as) (b # bs) =
     (if a = b then str_le as bs else (of_char a :: nat) < of_char b)"

fun num_le :: "num \<Rightarrow> num \<Rightarrow> bool" where
  "num_le NInf _ = True"
| "num_le _ PInf = True"
| "num_le (Fin a) (Fin b) = (a \<le> b)"
| "num_le _ _ = False"

fun cell_le :: "cell \<Rightarrow> cell \<Rightarrow> bool" where
  "cell_le (Num a) (Num b) = num_le a b"
| "cell_le (Num a) (Str b) = True"
| "cell_le (Str a) (Num b) = False"
| "cell_le (Str a) (Str b) = str_le a b"
| "cell_le NA _ = False"
| "cell_le _ NA = True"

fun insert_key :: "cell \<Rightarrow> cell list \<Rightarrow> cell list" where
  "insert_key k [] = [k]"
| "insert_key k (x # xs) = (if cell_le k x then k # x # xs else x # insert_key k xs)"

fun sort_keys :: "cell list \<Rightarrow> cell list" where
  "sort_keys [] = []"
| "sort_keys (k # ks) = insert_key k (sort_keys ks)"

text \<open>\<open>df[c]\<close> for one row: the cell under the first header entry equal to \<open>c\<close>.\<close>

definition col_index :: "dataframe \<Rightarrow> string \<Rightarrow> nat" where
  "col_index df c = length (takeWhile (\<lambda>h. h \<noteq> c) (columns df))"

definition cell_at :: "dataframe \<Rightarrow> cell list \<Rightarrow> string \<Rightarrow> cell" where
  "cell_at df r c = (let i = col_index df c in if i < length r then r ! i else NA)"

text \<open>\<open>pd.to_numeric(..., errors="coerce")\<close> on one cell: a missing entry stays missing, a
  number stays, a string is parsed and is NaN when it does not parse.\<close>

fun to_numeric :: "pylib \<Rightarrow> cell \<Rightarrow> pyfloat" where
  "to_numeric L NA = None"
| "to_numeric L (Num x) = Some x"
| "to_numeric L (Str s) = str_to_float L s"

text \<open>\<open>dropna(subset=[value_col])\<close> on the two working columns.\<close>

fun dropna :: "(cell \<times> pyfloat) list \<Rightarrow> frame" where
  "dropna [] = []"
| "dropna ((g, None) # rs) = dropna rs"
| "dropna ((g, Some x) # rs) = (g, x) # dropna rs"

text \<open>Lines 103--105. With \<open>group_col = value_col\<close> the selection \<open>df[[c, c]]\<close> has two
  columns of one name, \<open>df[value_col]\<close> is then a two-column table and \<open>pd.to_numeric\<close>
  raises \<open>TypeError\<close>; no \<open>try\<close> is around these lines.\<close>

definition clean :: "pylib \<Rightarrow> dataframe \<Rightarrow> string \<Rightarrow> string \<Rightarrow> string + frame" where
  "clean L df group_col value_col =
     (if group_col = value_col
      then Inl ''TypeError: arg must be a list, tuple, 1-d array, or Series''
      else Inr (dropna (map (\<lambda>r. (cell_at df r group_col,
                                    to_numeric L (cell_at df r value_col))) (rows df))))"

text \<open>Line 108: \<open>df[group_col].dropna().unique().tolist()\<close>.\<close>

definition groups_of :: "frame \<Rightarrow> cell list" where
  "groups_of df = unique (filter (\<lambda>g. g \<noteq> NA) (map fst df))"

text \<open>\<open>df.groupby(group_col)\<close>: the keys are the distinct labels that are not missing,
  sorted; the members of a key are the rows carrying it.\<close>

definition group_keys :: "frame \<Rightarrow> cell list" where
  "group_keys df = sort_keys (unique (filter (\<lambda>g. g \<noteq> NA) (map fst df)))"

definition group_values :: "frame \<Rightarrow> cell \<Rightarrow> num list" where
  "group_values df k = map snd (filter (\<lambda>r. fst r = k) df)"

text \<open>Line 109: \<open>df.groupby(group_col)[value_col].size().to_dict()\<close>, a dict in the order of
  its insertion.\<close>

definition n_by_group_of :: "frame \<Rightarrow> (cell \<times> nat) list" where
  "n_by_group_of df = map (\<lambda>k. (k, length (group_values df k))) (group_keys df)"

subsection \<open>descriptives\<close>

text \<open>The aggregations \<open>mean\<close>, \<open>std\<close> (sample standard deviation, \<open>ddof = 1\<close>: NaN for
  fewer than two values) and \<open>count\<close> of one group. For larger groups the floats they
  yield, an infinity or NaN among them when a value is infinite or a sum overflows, are
  the library's.\<close>

definition agg_mean :: "pylib \<Rightarrow> num list \<Rightarrow> pyfloat" where
  "agg_mean L xs = (if xs = [] then None else grp_mean L xs)"

definition agg_std :: "pylib \<Rightarrow> num list \<Rightarrow> pyfloat" where
  "agg_std L xs = (if length xs < 2 then None else grp_std L xs)"

definition agg_count :: "num list \<Rightarrow> nat" where
  "agg_count xs = length xs"

record descr =
  d_Group :: cell
  d_mean :: pyfloat
  d_std :: pyfloat
  d_n :: nat
  d_sem :: pyfloat
  d_ci95_lo :: pyfloat
  d_ci95_hi :: pyfloat

text \<open>Lines 56--58 for one group: \<open>clip(lower=1)\<close> is \<open>max n 1\<close>, \<open>np.sqrt\<close> yields the
  rounded square root, and the literal \<open>1.96\<close> is the float nearest to it.\<close>

definition descr_row :: "pylib \<Rightarrow> cell \<Rightarrow> num list \<Rightarrow> descr" where
  "descr_row L k xs =
     (let mean = agg_mean L xs; std = agg_std L xs; n = agg_count xs;
          sem = fdiv L std (Some (round64 L (sqrt (real (max n 1)))));
          ci95_lo = fsub L mean (fmul L (Some (round64 L 1.96)) sem);
          ci95_hi = fadd L mean (fmul L (Some (round64 L 1.96)) sem)
      in \<lparr>d_Group = k, d_mean = mean, d_std = std, d_n = n, d_sem = sem,
          d_ci95_lo = ci95_lo, d_ci95_hi = ci95_hi\<rparr>)"

text \<open>The columns the aggregated table has when line 60 is reached.\<close>

definition descr_columns :: "string list" where
  "descr_columns = [''mean'', ''std'', ''n'', ''sem'', ''ci95_lo'', ''ci95_hi'']"

text \<open>\<open>descriptives\<close>, lines 52--61. The aggregated table is indexed by the group column;
  \<open>reset_index\<close> on line 60 inserts the index as a column of that name and raises
  \<open>ValueError\<close> when the table already has a column of that name.\<close>

definition descriptives :: "pylib \<Rightarrow> frame \<Rightarrow> string \<Rightarrow> string \<Rightarrow> string + descr list" where
  "descriptives L df group_col value_col =
     (if group_col \<in> set descr_columns
      then Inl (''ValueError: cannot insert '' @ group_col @ '', already exists'')
      else Inr (map (\<lambda>k. descr_row L k (group_values df k)) (group_keys df)))"

subsection \<open>Requests and responses\<close>

text \<open>A request: the uploaded file under the name \<open>file\<close>, when there is one, and the
  form fields in the order sent. \<open>request.form.get(k)\<close> is the first field named \<open>k\<close>;
  \<open>request.form.keys()\<close> are the distinct names.\<close>

record request =
  files_file :: "string option"
  form :: "(string \<times> string) list"

definition form_get :: "request \<Rightarrow> string \<Rightarrow> string option" where
  "form_get req k = map_of (form req) k"

definition form_keys :: "request \<Rightarrow> string list" where
  "form_keys req = unique (map fst (form req))"

text \<open>\<open>(request.form.get(k) or "").strip()\<close>, lines 79--81.\<close>

definition form_param :: "pylib \<Rightarrow> request \<Rightarrow> string \<Rightarrow> string" where
  "form_param L req k = str_strip L (case form_get req k of None \<Rightarrow> [] | Some s \<Rightarrow> s)"

text \<open>The test-specific entries of the success payload.\<close>

datatype test_out =
    Welch string pyfloat pyfloat
  | Anova string anova_dict string
  | Kruskal string pyfloat pyfloat dunn_dict

record success =
  out_groups :: "cell list"
  out_n_by_group :: "(cell \<times> nat) list"
  out_descriptives :: "descr list"
  out_requested_test :: string
  out_test :: test_out

text \<open>The diagnostic entries of a failure payload.\<close>

datatype diag = DStr string | DStrs "string list" | DCells "cell list"

text \<open>A JSON body: \<open>Ok\<close> carries \<open>"ok": true\<close> and the success entries, \<open>Err\<close> carries
  \<open>"ok": false\<close>, the \<open>error\<close> message and the extra entries. A response is a body and its
  HTTP status.\<close>

datatype body = Ok success | Err string "(string \<times> diag) list"

type_synonym response = "body \<times> nat"

definition json_error :: "string \<Rightarrow> nat \<Rightarrow> (string \<times> diag) list \<Rightarrow> response" where
  "json_error msg code extra = (Err msg extra, code)"

definition jsonify :: "success \<Rightarrow> response" where
  "jsonify out = (Ok out, 200)"

fun body_ok :: "body \<Rightarrow> bool" where
  "body_ok (Ok out) = True"
| "body_ok (Err msg extra) = False"

subsection \<open>run\_stats\<close>

text \<open>The model formula of line 134, \<open>Q('value') ~ C(Q('group'))\<close>.\<close>

definition ols_formula :: "string \<Rightarrow> string \<Rightarrow> string" where
  "ols_formula group_col value_col =
     ''Q('' @ [CHR 0x27] @ value_col @ [CHR 0x27] @ '') ~ C(Q('' @ [CHR 0x27] @ group_col
       @ [CHR 0x27] @ ''))''"

text \<open>The messages with a character outside ASCII, in UTF-8.\<close>

definition msg_anova :: string where
  "msg_anova = ''One-way ANOVA requires '' @ [CHR 0xE2, CHR 0x89, CHR 0xA5] @ ''3 groups.''"

definition name_kruskal :: string where
  "name_kruskal = ''Kruskal'' @ [CHR 0xE2, CHR 0x80, CHR 0x93] @ ''Wallis''"

definition msg_kruskal :: string where
  "msg_kruskal = name_kruskal @ '' requires '' @ [CHR 0xE2, CHR 0x89, CHR 0xA5] @ ''3 groups.''"

text \<open>The body of the \<open>try\<close> of lines 120--153. \<open>Inl\<close> is an exception raised inside it,
  \<open>Inr\<close> is what the handler returns: lines 123, 131, 145 and 153 return from inside the
  \<open>try\<close>, the other paths reach \<open>jsonify(out)\<close> of line 158. \<open>mk\<close> completes the payload
  \<open>out\<close> of lines 111--117 with the entries of the test.\<close>

definition run_test ::
  "pylib \<Rightarrow> string \<Rightarrow> string \<Rightarrow> string \<Rightarrow> frame \<Rightarrow> cell list \<Rightarrow> (test_out \<Rightarrow> success)
     \<Rightarrow> string + response" where
  "run_test L test group_col value_col df groups mk =
     (if test = ''ttest'' then
        if length groups \<noteq> 2
        then Inr (json_error ''t-test requires exactly 2 groups.'' 400
                    [(''groups'', DCells groups)])
        else
          let g1 = group_values df (groups ! 0);
              g2 = group_values df (groups ! 1)
          in (case ttest_ind L g1 g2 of
                Inl e \<Rightarrow> Inl e
              | Inr (t, p) \<Rightarrow> Inr (jsonify (mk (Welch ''Welch t-test'' t p))))
      else if test = ''anova'' then
        if length groups < 3
        then Inr (json_error msg_anova 400 [(''groups'', DCells groups)])
        else
          (case ols_anova_lm L (ols_formula group_col value_col) group_col value_col df of
             Inl e \<Rightarrow> Inl e
           | Inr anova_tbl \<Rightarrow>
               (case pairwise_tukeyhsd L (map snd df) (map fst df) of
                  Inl e \<Rightarrow> Inl e
                | Inr tukey \<Rightarrow> Inr (jsonify (mk (Anova ''One-way ANOVA'' anova_tbl tukey)))))
      else if test = ''kruskal'' then
        if length groups < 3
        then Inr (json_error msg_kruskal 400 [(''groups'', DCells groups)])
        else
          let samples = map (group_values df) groups
          in (case kruskal L samples of
                Inl e \<Rightarrow> Inl e
              | Inr (H, p) \<Rightarrow>
                  (case posthoc_dunn L df value_col group_col of
                     Inl e \<Rightarrow> Inl e
                   | Inr dunn \<Rightarrow> Inr (jsonify (mk (Kruskal name_kruskal H p dunn)))))
      else Inr (json_error ''Unknown test. Use: ttest | anova | kruskal.'' 400 []))"

text \<open>The handler. \<open>Inl\<close> is an exception that leaves the handler uncaught: lines 102--117
  are outside every \<open>try\<close>, and \<open>descriptives\<close> is called on line 115.\<close>

definition run_stats :: "pylib \<Rightarrow> request \<Rightarrow> string + response" where
  "run_stats L req =
     (let f = files_file req;
          group_col = form_param L req ''group'';
          value_col = form_param L req ''value'';
          test = str_lower L (form_param L req ''test'')
      in case f of
           None \<Rightarrow> Inr (json_error ''No CSV uploaded.'' 400 [])
         | Some file \<Rightarrow>
             if group_col = [] \<or> value_col = [] \<or> test = []
             then Inr (json_error ''Missing group/value/test parameters.'' 400
                         [(''params'', DStrs (form_keys req))])
             else
               (case read_csv L file of
                  Inl e \<Rightarrow> Inr (json_error ''Could not read CSV.'' 400 [(''detail'', DStr e)])
                | Inr df0 \<Rightarrow>
                    if group_col \<notin> set (columns df0) \<or> value_col \<notin> set (columns df0)
                    then Inr (json_error ''Column not found in CSV.'' 400
                                [(''columns'', DStrs (columns df0)),
                                 (''group_requested'', DStr group_col),
                                 (''value_requested'', DStr value_col)])
                    else
                      (case clean L df0 group_col value_col of
                         Inl exn \<Rightarrow> Inl exn
                       | Inr df \<Rightarrow>
                           let groups = groups_of df;
                               n_by_group = n_by_group_of df
                           in (case descriptives L df group_col value_col of
                                 Inl exn \<Rightarrow> Inl exn
                               | Inr ds \<Rightarrow>
                                   let mk = (\<lambda>t. \<lparr>out_groups = groups,
                                                   out_n_by_group = n_by_group,
                                                   out_descriptives = ds,
                                                   out_requested_test = test, out_test = t\<rparr>)
                                   in (case run_test L test group_col value_col df groups mk of
                                         Inl e \<Rightarrow>
                                           Inr (json_error ''Exception during analysis.'' 500
                                                  [(''detail'', DStr e)])
                                       | Inr resp \<Rightarrow> Inr resp)))))"

subsection \<open>Notions the properties are stated with\<close>

text \<open>The position of the first occurrence of \<open>x\<close> in \<open>xs\<close> (the length of \<open>xs\<close> when there
  is none).\<close>

definition first_pos :: "'a \<Rightarrow> 'a list \<Rightarrow> nat" where
  "first_pos x xs = length (takeWhile (\<lambda>y. y \<noteq> x) xs)"

text \<open>The cleaned table of a request: the table \<open>df\<close> after line 105, when the handler gets
  that far (a file, the three parameters, a parsed table holding both columns, and no
  exception while cleaning).\<close>

definition cleaned_table :: "pylib \<Rightarrow> request \<Rightarrow> frame option" where
  "cleaned_table L req =
     (case files_file req of
        None \<Rightarrow> None
      | Some file \<Rightarrow>
          if form_param L req ''group'' = [] \<or> form_param L req ''value'' = []
             \<or> str_lower L (form_param L req ''test'') = []
          then None
          else (case read_csv L file of
                  Inl e \<Rightarrow> None
                | Inr df0 \<Rightarrow>
                    if form_param L req ''group'' \<notin> set (columns df0)
                       \<or> form_param L req ''value'' \<notin> set (columns df0)
                    then None
                    else (case clean L df0 (form_param L req ''group'')
                                 (form_param L req ''value'') of
                            Inl exn \<Rightarrow> None
                          | Inr df \<Rightarrow> Some df)))"

text \<open>The same library with other statistical procedures.\<close>

definition with_procedures ::
  "pylib \<Rightarrow> (num list \<Rightarrow> num list \<Rightarrow> string + pyfloat \<times> pyfloat)
     \<Rightarrow> (string \<Rightarrow> string \<Rightarrow> string \<Rightarrow> frame \<Rightarrow> string + anova_dict)
     \<Rightarrow> (num list \<Rightarrow> cell list \<Rightarrow> string + string)
     \<Rightarrow> (num list list \<Rightarrow> string + pyfloat \<times> pyfloat)
     \<Rightarrow> (frame \<Rightarrow> string \<Rightarrow> string \<Rightarrow> string + dunn_dict) \<Rightarrow> pylib" where
  "with_procedures L tt oa tk kw pd =
     L\<lparr>ttest_ind := tt, ols_anova_lm := oa, pairwise_tukeyhsd := tk, kruskal := kw,
       posthoc_dunn := pd\<rparr>"

text \<open>The same library, parsing the upload \<open>file\<close> to the table \<open>df\<close>.\<close>

definition with_upload :: "pylib \<Rightarrow> string \<Rightarrow> dataframe \<Rightarrow> pylib" where
  "with_upload L file df = L\<lparr>read_csv := (read_csv L)(file := Inr df)\<rparr>"

text \<open>The success payload of lines 111--117 over the cleaned table \<open>df\<close> and the descriptive
  records \<open>ds\<close>, with the entries \<open>t\<close> of the test.\<close>

definition payload :: "pylib \<Rightarrow> request \<Rightarrow> frame \<Rightarrow> descr list \<Rightarrow> test_out \<Rightarrow> success" where
  "payload L req df ds t =
     \<lparr>out_groups = groups_of df, out_n_by_group = n_by_group_of df,
      out_descriptives = ds,
      out_requested_test = str_lower L (form_param L req ''test''), out_test = t\<rparr>"

subsection \<open>Example uploads\<close>

text \<open>\<open>str.strip()\<close> and \<open>str.lower()\<close> as they act on ASCII strings, for the example
  library: the ASCII whitespace characters are tab, line feed, vertical tab, form feed,
  carriage return, the four separators 0x1c--0x1f and space.\<close>

definition is_space :: "char \<Rightarrow> bool" where
  "is_space c = ((of_char c :: nat) \<in> {9, 10, 11, 12, 13, 28, 29, 30, 31, 32})"

definition ascii_strip :: "string \<Rightarrow> string" where
  "ascii_strip s = rev (dropWhile is_space (rev (dropWhile is_space s)))"

definition lower_char :: "char \<Rightarrow> char" where
  "lower_char c =
     (let k = (of_char c :: nat) in if 65 \<le> k \<and> k \<le> 90 then char_of (k + 32) else c)"

definition ascii_lower :: "string \<Rightarrow> string" where
  "ascii_lower s = map lower_char s"

text \<open>The exact mean and sample standard deviation of finite values, for the example
  library.\<close>

fun fin_val :: "num \<Rightarrow> real" where
  "fin_val (Fin a) = a"
| "fin_val _ = 0"

definition ex_mean :: "num list \<Rightarrow> pyfloat" where
  "ex_mean xs = Some (Fin (sum_list (map fin_val xs) / real (length xs)))"

definition ex_std :: "num list \<Rightarrow> pyfloat" where
  "ex_std xs =
     (let m = sum_list (map fin_val xs) / real (length xs)
      in Some (Fin (sqrt (sum_list (map (\<lambda>x. (fin_val x - m)\<^sup>2) xs) / real (length xs - 1)))))"

text \<open>Three uploads. The first has a row with a missing group label, a row whose value does
  not parse (\<open>n/a\<close>), a row whose value is the string \<open>5\<close>, and three groups, two of them
  with one usable row. The second is scenario A of the specification. The third has its
  group column named \<open>n\<close>.\<close>

definition df_three :: dataframe where
  "df_three = \<lparr>columns = [''id'', ''group'', ''value''],
     rows = [[Num (Fin 1), Str ''B'', Num (Fin 3)], [Num (Fin 2), Str ''A'', Num (Fin 1)],
             [Num (Fin 3), NA, Num (Fin 7)], [Num (Fin 4), Str ''A'', Str ''n/a''],
             [Num (Fin 5), Str ''B'', Str ''5''], [Num (Fin 6), Str ''C'', Num (Fin 2)]]\<rparr>"

definition df_two :: dataframe where
  "df_two = \<lparr>columns = [''group'', ''value''],
     rows = [[Str ''A'', Num (Fin 1)], [Str ''A'', Num (Fin 2)], [Str ''B'', Num (Fin 3)],
             [Str ''B'', Num (Fin 4)]]\<rparr>"

definition df_n :: dataframe where
  "df_n = \<lparr>columns = [''n'', ''value''],
     rows = [[Str ''A'', Num (Fin 1)], [Str ''A'', Num (Fin 2)], [Str ''B'', Num (Fin 3)],
             [Str ''B'', Num (Fin 4)]]\<rparr>"

text \<open>A library for the examples: it parses the three uploads and the string \<open>5\<close>, rounds
  nothing, and its statistical procedures are stand-ins that return fixed results.\<close>

definition lib_ex :: pylib where
  "lib_ex = \<lparr>str_strip = ascii_strip, str_lower = ascii_lower,
             read_csv = (\<lambda>s. if s = ''three.csv'' then Inr df_three
                               else if s = ''two.csv'' then Inr df_two
                               else if s = ''n.csv'' then Inr df_n
                               else Inl ''No columns to parse from file''),
             str_to_float = (\<lambda>s. if s = ''5'' then Some (Fin 5) else None),
             round64 = Fin, grp_mean = ex_mean, grp_std = ex_std,
             ttest_ind = (\<lambda>a b. Inr (Some (Fin 0), Some (Fin 1))),
             ols_anova_lm = (\<lambda>f g v d. Inr []),
             pairwise_tukeyhsd = (\<lambda>v g. Inr ''summary''),
             kruskal = (\<lambda>s. Inr (Some (Fin 0), Some (Fin 1))),
             posthoc_dunn = (\<lambda>d v g. Inr [])\<rparr>"

definition req_ex :: "string \<Rightarrow> string \<Rightarrow> string \<Rightarrow> string \<Rightarrow> request" where
  "req_ex file g v t =
     \<lparr>files_file = Some file, form = [(''group'', g), (''value'', v), (''test'', t)]\<rparr>"

definition cf_three :: frame where
  "cf_three = [(Str ''B'', Fin 3), (Str ''A'', Fin 1), (NA, Fin 7), (Str ''B'', Fin 5),
               (Str ''C'', Fin 2)]"

definition cf_two :: frame where
  "cf_two = [(Str ''A'', Fin 1), (Str ''A'', Fin 2), (Str ''B'', Fin 3), (Str ''B'', Fin 4)]"

definition ds_three :: "descr list" where
  "ds_three =
     [\<lparr>d_Group = Str ''A'', d_mean = Some (Fin 1), d_std = None, d_n = 1, d_sem = None,
       d_ci95_lo = None, d_ci95_hi = None\<rparr>,
      \<lparr>d_Group = Str ''B'', d_mean = Some (Fin 4), d_std = Some (Fin (sqrt 2)), d_n = 2,
       d_sem = Some (Fin 1), d_ci95_lo = Some (Fin 2.04), d_ci95_hi = Some (Fin 5.96)\<rparr>,
      \<lparr>d_Group = Str ''C'', d_mean = Some (Fin 2), d_std = None, d_n = 1, d_sem = None,
       d_ci95_lo = None, d_ci95_hi = None\<rparr>]"


section \<open>Properties\<close>

subsection \<open>unique and the sorted keys\<close>

lemma set_unique: "set (unique xs) = set xs"
proof (induction xs rule: unique.induct)
  case 1
  show ?case by simp
next
  case (2 x xs)
  then show ?case by auto
qed

lemma distinct_unique: "distinct (unique xs)"
proof (induction xs rule: unique.induct)
  case 1
  show ?case by simp
next
  case (2 x xs)
  then show ?case by (simp add: set_unique)
qed

lemma first_pos_filter:
  "a \<noteq> x \<Longrightarrow> a \<in> set xs \<Longrightarrow> b \<noteq> x \<Longrightarrow> b \<in> set xs \<Longrightarrow>
   first_pos a (filter (\<lambda>y. y \<noteq> x) xs) < first_pos b (filter (\<lambda>y. y \<noteq> x) xs)
   \<longleftrightarrow> first_pos a xs < first_pos b xs"
  by (induction xs) (auto simp: first_pos_def)

lemma unique_first_order:
  "sorted_wrt (\<lambda>a b. first_pos a xs < first_pos b xs) (unique xs)"
proof (induction xs rule: unique.induct)
  case 1
  show ?case by simp
next
  case (2 x xs)
  let ?ys = "filter (\<lambda>y. y \<noteq> x) xs"
  have head: "\<forall>b \<in> set (unique ?ys). first_pos x (x # xs) < first_pos b (x # xs)"
    by (auto simp: set_unique first_pos_def)
  have "sorted_wrt (\<lambda>a b. first_pos a ?ys < first_pos b ?ys) (unique ?ys)"
    using 2 by simp
  then have "sorted_wrt (\<lambda>a b. first_pos a (x # xs) < first_pos b (x # xs)) (unique ?ys)"
  proof (rule sorted_wrt_mono_rel[rotated])
    fix a b
    assume a: "a \<in> set (unique ?ys)" and b: "b \<in> set (unique ?ys)"
      and lt: "first_pos a ?ys < first_pos b ?ys"
    from a b have ax: "a \<noteq> x" "a \<in> set xs" and bx: "b \<noteq> x" "b \<in> set xs"
      by (auto simp: set_unique)
    from lt have "first_pos a xs < first_pos b xs"
      using first_pos_filter[OF ax bx] by simp
    then show "first_pos a (x # xs) < first_pos b (x # xs)"
      using ax bx by (simp add: first_pos_def)
  qed
  with head show ?case by simp
qed

lemma set_insert_key: "set (insert_key k xs) = insert k (set xs)"
  by (induction xs) auto

lemma set_sort_keys: "set (sort_keys ks) = set ks"
  by (induction ks) (auto simp: set_insert_key)

lemma distinct_insert_key: "distinct (insert_key k xs) \<longleftrightarrow> k \<notin> set xs \<and> distinct xs"
  by (induction xs) (auto simp: set_insert_key)

lemma distinct_sort_keys: "distinct (sort_keys ks) \<longleftrightarrow> distinct ks"
  by (induction ks) (auto simp: distinct_insert_key set_sort_keys)

lemma sum_insert_key: "sum_list (map f (insert_key k xs)) = f k + sum_list (map f xs)" for f :: "cell \<Rightarrow> nat"
  by (induction xs) auto

lemma sum_sort_keys: "sum_list (map f (sort_keys ks)) = sum_list (map f ks)" for f :: "cell \<Rightarrow> nat"
  by (induction ks) (auto simp: sum_insert_key)

lemma sum_unique_count:
  "sum_list (map (\<lambda>k. length (filter (\<lambda>y. y = k) xs)) (unique xs)) = length xs"
proof (induction xs rule: unique.induct)
  case 1
  show ?case by simp
next
  case (2 x xs)
  let ?ys = "filter (\<lambda>y. y \<noteq> x) xs"
  have eq: "map (\<lambda>k. length (filter (\<lambda>y. y = k) (x # xs))) (unique ?ys)
          = map (\<lambda>k. length (filter (\<lambda>y. y = k) ?ys)) (unique ?ys)"
  proof (rule map_cong[OF refl])
    fix k assume "k \<in> set (unique ?ys)"
    then have kx: "k \<noteq> x" by (auto simp: set_unique)
    have "filter (\<lambda>y. y = k) ?ys = filter (\<lambda>y. y = k) xs"
      using kx by (auto intro: filter_cong)
    then show "length (filter (\<lambda>y. y = k) (x # xs)) = length (filter (\<lambda>y. y = k) ?ys)"
      using kx by simp
  qed
  have split: "length xs = length (filter (\<lambda>y. y = x) xs) + length ?ys"
    using sum_length_filter_compl[of "\<lambda>y. y = x" xs] by simp
  have "sum_list (map (\<lambda>k. length (filter (\<lambda>y. y = k) (x # xs))) (unique (x # xs)))
      = length (filter (\<lambda>y. y = x) (x # xs))
        + sum_list (map (\<lambda>k. length (filter (\<lambda>y. y = k) (x # xs))) (unique ?ys))"
    by simp
  also have "\<dots> = Suc (length (filter (\<lambda>y. y = x) xs))
        + sum_list (map (\<lambda>k. length (filter (\<lambda>y. y = k) ?ys)) (unique ?ys))"
    unfolding eq by simp
  also have "\<dots> = Suc (length (filter (\<lambda>y. y = x) xs)) + length ?ys"
    using 2 by simp
  also have "\<dots> = length (x # xs)"
    using split by simp
  finally show ?case .
qed

subsection \<open>The paths of the handler\<close>

lemma float_ops_with_procedures [simp]:
  "fadd (with_procedures L tt oa tk kw pd) = fadd L"
  "fsub (with_procedures L tt oa tk kw pd) = fsub L"
  "fmul (with_procedures L tt oa tk kw pd) = fmul L"
  "fdiv (with_procedures L tt oa tk kw pd) = fdiv L"
  by (simp_all add: fun_eq_iff fadd_def fsub_def fmul_def fdiv_def with_procedures_def
        split: option.splits)

lemma form_param_with_procedures [simp]:
  "form_param (with_procedures L tt oa tk kw pd) req k = form_param L req k"
  by (simp add: form_param_def with_procedures_def)

lemma str_lower_with_procedures [simp]:
  "str_lower (with_procedures L tt oa tk kw pd) = str_lower L"
  by (simp add: with_procedures_def)

lemma clean_with_procedures [simp]:
  "clean (with_procedures L tt oa tk kw pd) df g v = clean L df g v"
proof -
  have "to_numeric (with_procedures L tt oa tk kw pd) c = to_numeric L c" for c
    by (cases c) (simp_all add: with_procedures_def)
  then show ?thesis by (simp add: clean_def)
qed

lemma descriptives_with_procedures [simp]:
  "descriptives (with_procedures L tt oa tk kw pd) df g v = descriptives L df g v"
proof -
  have "descr_row (with_procedures L tt oa tk kw pd) k xs = descr_row L k xs" for k xs
    by (simp add: descr_row_def agg_mean_def agg_std_def) (simp add: with_procedures_def)
  then show ?thesis by (simp add: descriptives_def)
qed

lemma cleaned_table_with_procedures [simp]:
  "cleaned_table (with_procedures L tt oa tk kw pd) req = cleaned_table L req"
proof -
  have "read_csv (with_procedures L tt oa tk kw pd) = read_csv L"
    by (simp add: with_procedures_def)
  then show ?thesis by (simp add: cleaned_table_def cong: option.case_cong sum.case_cong if_cong)
qed

lemma run_stats_cleaned:
  assumes "cleaned_table L req = Some df"
    and "descriptives L df (form_param L req ''group'') (form_param L req ''value'') = Inr ds"
  shows "run_stats L req =
          (case run_test L (str_lower L (form_param L req ''test'')) (form_param L req ''group'')
                  (form_param L req ''value'') df (groups_of df) (payload L req df ds) of
             Inl e \<Rightarrow> Inr (json_error ''Exception during analysis.'' 500 [(''detail'', DStr e)])
           | Inr resp \<Rightarrow> Inr resp)"
  using assms
  by (auto simp: cleaned_table_def run_stats_def Let_def payload_def[abs_def]
           split: option.splits if_splits sum.splits)

lemma run_stats_raises:
  assumes "cleaned_table L req = Some df"
    and "descriptives L df (form_param L req ''group'') (form_param L req ''value'') = Inl e"
  shows "run_stats L req = Inl e"
  using assms
  by (auto simp: cleaned_table_def run_stats_def Let_def
           split: option.splits if_splits sum.splits)

lemma run_test_Ok:
  assumes "run_test L t g v df gs mk = Inr (Ok out, st)"
  shows "st = 200 \<and> (\<exists>r. out = mk r)"
  using assms
  by (auto simp: run_test_def json_error_def jsonify_def Let_def
           split: if_splits sum.splits prod.splits)

lemma run_stats_Ok:
  assumes "run_stats L req = Inr (Ok out, st)"
  shows "\<exists>df ds r. cleaned_table L req = Some df
           \<and> descriptives L df (form_param L req ''group'') (form_param L req ''value'') = Inr ds
           \<and> out = payload L req df ds r \<and> st = 200"
proof -
  from assms obtain df where df: "cleaned_table L req = Some df"
    by (auto simp: cleaned_table_def run_stats_def Let_def json_error_def
             split: option.splits if_splits sum.splits)
  from assms run_stats_raises[OF df] obtain ds where
    ds: "descriptives L df (form_param L req ''group'') (form_param L req ''value'') = Inr ds"
    by (cases "descriptives L df (form_param L req ''group'') (form_param L req ''value'')")
       auto
  from assms run_stats_cleaned[OF df ds]
  have "run_test L (str_lower L (form_param L req ''test'')) (form_param L req ''group'')
          (form_param L req ''value'') df (groups_of df) (payload L req df ds)
        = Inr (Ok out, st)"
    by (auto simp: json_error_def split: sum.splits)
  from run_test_Ok[OF this] df ds show ?thesis by blast
qed

subsection \<open>The example uploads, evaluated\<close>

lemma form_param_req_ex:
  "form_param lib_ex (req_ex file g v t) ''group'' = ascii_strip g"
  "form_param lib_ex (req_ex file g v t) ''value'' = ascii_strip v"
  "form_param lib_ex (req_ex file g v t) ''test'' = ascii_strip t"
  by (simp_all add: form_param_def form_get_def req_ex_def lib_ex_def)

lemma strip_examples:
  "ascii_strip '' group'' = ''group''" "ascii_strip ''value '' = ''value''"
  "ascii_strip ''group'' = ''group''" "ascii_strip ''value'' = ''value''"
  "ascii_strip ''grp'' = ''grp''" "ascii_strip ''n'' = ''n''"
  "ascii_strip '' TTest '' = ''TTest''" "ascii_strip ''ANOVA'' = ''ANOVA''"
  "ascii_strip ''anova'' = ''anova''" "ascii_strip ''ttest'' = ''ttest''"
  "ascii_strip ''kruskal'' = ''kruskal''" "ascii_strip ''wilcoxon'' = ''wilcoxon''"
  "ascii_strip ''  '' = []"
  by (simp_all add: ascii_strip_def is_space_def)

lemma lower_examples:
  "str_lower lib_ex ''TTest'' = ''ttest''" "str_lower lib_ex ''ANOVA'' = ''anova''"
  "str_lower lib_ex ''anova'' = ''anova''" "str_lower lib_ex ''ttest'' = ''ttest''"
  "str_lower lib_ex ''kruskal'' = ''kruskal''" "str_lower lib_ex ''wilcoxon'' = ''wilcoxon''"
  "str_lower lib_ex [] = []"
proof -
  have "ascii_lower ''TTest'' = ''ttest''" "ascii_lower ''ANOVA'' = ''anova''"
    "ascii_lower ''anova'' = ''anova''" "ascii_lower ''ttest'' = ''ttest''"
    "ascii_lower ''kruskal'' = ''kruskal''" "ascii_lower ''wilcoxon'' = ''wilcoxon''"
    "ascii_lower [] = []"
    by code_simp+
  then show "str_lower lib_ex ''TTest'' = ''ttest''" "str_lower lib_ex ''ANOVA'' = ''anova''"
    "str_lower lib_ex ''anova'' = ''anova''" "str_lower lib_ex ''ttest'' = ''ttest''"
    "str_lower lib_ex ''kruskal'' = ''kruskal''" "str_lower lib_ex ''wilcoxon'' = ''wilcoxon''"
    "str_lower lib_ex [] = []"
    by (simp_all add: lib_ex_def)
qed

lemma str_to_float_ex:
  "str_to_float lib_ex ''n/a'' = None" "str_to_float lib_ex ''5'' = Some (Fin 5)"
  by (simp_all add: lib_ex_def)

lemma clean_three: "clean lib_ex df_three ''group'' ''value'' = Inr cf_three"
  by (simp add: clean_def df_three_def cell_at_def col_index_def cf_three_def str_to_float_ex)

lemma clean_two: "clean lib_ex df_two ''group'' ''value'' = Inr cf_two"
  by (simp add: clean_def df_two_def cell_at_def col_index_def cf_two_def)

lemma clean_n: "clean lib_ex df_n ''n'' ''value'' = Inr cf_two"
  by (simp add: clean_def df_n_def cell_at_def col_index_def cf_two_def)

lemma files_file_req_ex: "files_file (req_ex file g v t) = Some file"
  by (simp add: req_ex_def)

lemma read_csv_ex:
  "read_csv lib_ex ''three.csv'' = Inr df_three" "read_csv lib_ex ''two.csv'' = Inr df_two"
  "read_csv lib_ex ''n.csv'' = Inr df_n"
  by (simp_all add: lib_ex_def)

lemma columns_ex:
  "columns df_three = [''id'', ''group'', ''value'']" "columns df_two = [''group'', ''value'']"
  "columns df_n = [''n'', ''value'']"
  by (simp_all add: df_three_def df_two_def df_n_def)

lemmas ex_simps = form_param_req_ex files_file_req_ex read_csv_ex columns_ex strip_examples
  lower_examples

lemma cleaned_three:
  "cleaned_table lib_ex (req_ex ''three.csv'' '' group'' ''value '' ''ANOVA'') = Some cf_three"
  "cleaned_table lib_ex (req_ex ''three.csv'' '' group'' ''value '' '' TTest '') = Some cf_three"
  "cleaned_table lib_ex (req_ex ''three.csv'' '' group'' ''value '' ''wilcoxon'') = Some cf_three"
  "cleaned_table lib_ex (req_ex ''three.csv'' '' group'' ''value '' ''kruskal'') = Some cf_three"
  by (simp_all add: cleaned_table_def ex_simps clean_three)

lemma cleaned_two:
  "cleaned_table lib_ex (req_ex ''two.csv'' ''group'' ''value'' ''ttest'') = Some cf_two"
  "cleaned_table lib_ex (req_ex ''two.csv'' ''group'' ''value'' ''anova'') = Some cf_two"
  "cleaned_table lib_ex (req_ex ''two.csv'' ''group'' ''value'' ''kruskal'') = Some cf_two"
  by (simp_all add: cleaned_table_def ex_simps clean_two)

lemma cleaned_n:
  "cleaned_table lib_ex (req_ex ''n.csv'' ''n'' ''value'' ''anova'') = Some cf_two"
  "cleaned_table lib_ex (req_ex ''n.csv'' ''n'' ''value'' ''ttest'') = Some cf_two"
  by (simp_all add: cleaned_table_def ex_simps clean_n)

lemma groups_three: "groups_of cf_three = [Str ''B'', Str ''A'', Str ''C'']"
  by (simp add: groups_of_def cf_three_def)

lemma groups_two: "groups_of cf_two = [Str ''A'', Str ''B'']"
  by (simp add: groups_of_def cf_two_def)

lemma keys_three: "group_keys cf_three = [Str ''A'', Str ''B'', Str ''C'']"
  by (simp add: group_keys_def cf_three_def)

lemma n_by_group_three: "n_by_group_of cf_three = [(Str ''A'', 1), (Str ''B'', 2), (Str ''C'', 1)]"
  by (simp add: n_by_group_of_def keys_three group_values_def) (simp add: cf_three_def)

lemma float_ops_ex:
  "fadd lib_ex (Some (Fin a)) (Some (Fin b)) = Some (Fin (a + b))"
  "fsub lib_ex (Some (Fin a)) (Some (Fin b)) = Some (Fin (a - b))"
  "fmul lib_ex (Some (Fin a)) (Some (Fin b)) = Some (Fin (a * b))"
  "b \<noteq> 0 \<Longrightarrow> fdiv lib_ex (Some (Fin a)) (Some (Fin b)) = Some (Fin (a / b))"
  "fadd lib_ex x None = None" "fsub lib_ex x None = None" "fmul lib_ex x None = None"
  "fdiv lib_ex None y = None" "round64 lib_ex = Fin"
  by (simp_all add: fadd_def fsub_def fmul_def fdiv_def lib_ex_def split: option.splits)

lemma grp_ex: "grp_mean lib_ex = ex_mean" "grp_std lib_ex = ex_std"
  by (simp_all add: lib_ex_def)

lemma descriptives_three: "descriptives lib_ex cf_three ''group'' ''value'' = Inr ds_three"
proof -
  have g: "''group'' \<notin> set descr_columns" by (simp add: descr_columns_def)
  have "map (\<lambda>k. descr_row lib_ex k (group_values cf_three k)) (group_keys cf_three) = ds_three"
    unfolding keys_three
    by (simp add: group_values_def cf_three_def descr_row_def agg_mean_def agg_std_def
          agg_count_def Let_def float_ops_ex ds_three_def grp_ex ex_mean_def ex_std_def)
  with g show ?thesis by (simp add: descriptives_def)
qed

lemma procedures_ex:
  "ttest_ind lib_ex a b = Inr (Some (Fin 0), Some (Fin 1))"
  "ols_anova_lm lib_ex f g v d = Inr []"
  "pairwise_tukeyhsd lib_ex xs gs = Inr ''summary''"
  "kruskal lib_ex ss = Inr (Some (Fin 0), Some (Fin 1))"
  "posthoc_dunn lib_ex d v g = Inr []"
  by (simp_all add: lib_ex_def)

lemma run_anova_three:
  "run_stats lib_ex (req_ex ''three.csv'' '' group'' ''value '' ''ANOVA'')
     = Inr (Ok (payload lib_ex (req_ex ''three.csv'' '' group'' ''value '' ''ANOVA'') cf_three
                  ds_three (Anova ''One-way ANOVA'' [] ''summary'')), 200)"
proof -
  have ds: "descriptives lib_ex cf_three
      (form_param lib_ex (req_ex ''three.csv'' '' group'' ''value '' ''ANOVA'') ''group'')
      (form_param lib_ex (req_ex ''three.csv'' '' group'' ''value '' ''ANOVA'') ''value'')
      = Inr ds_three"
    by (simp add: ex_simps descriptives_three)
  show ?thesis
    unfolding run_stats_cleaned[OF cleaned_three(1) ds]
    by (simp add: run_test_def ex_simps groups_three procedures_ex jsonify_def)
qed

subsection \<open>Groups and counts\<close>

lemma set_groups_of: "set (groups_of df) = fst ` set df - {NA}"
  by (auto simp: groups_of_def set_unique)

lemma distinct_groups_of: "distinct (groups_of df)"
  by (simp add: groups_of_def distinct_unique)

lemma group_keys_sort: "group_keys df = sort_keys (groups_of df)"
  by (simp add: group_keys_def groups_of_def)

lemma set_group_keys: "set (group_keys df) = set (groups_of df)"
  by (simp add: group_keys_sort set_sort_keys)

lemma distinct_group_keys: "distinct (group_keys df)"
  by (simp add: group_keys_sort distinct_sort_keys distinct_groups_of)

lemma length_group_values: "length (group_values df k) = length (filter (\<lambda>r. fst r = k) df)"
  by (simp add: group_values_def)

lemma keys_n_by_group: "map fst (n_by_group_of df) = group_keys df"
  by (simp add: n_by_group_of_def comp_def)

lemma map_of_n_by_group:
  "map_of (n_by_group_of df) k =
     (if k \<in> set (groups_of df) then Some (length (filter (\<lambda>r. fst r = k) df)) else None)"
proof -
  have "map_of (map (\<lambda>k. (k, f k)) ks) k = (if k \<in> set ks then Some (f k) else None)"
    for f :: "cell \<Rightarrow> nat" and ks
    by (induction ks) auto
  then show ?thesis
    by (simp add: n_by_group_of_def set_group_keys length_group_values)
qed

lemma count_labels:
  "k \<noteq> NA \<Longrightarrow> length (filter (\<lambda>y. y = k) (filter (\<lambda>g. g \<noteq> NA) (map fst df)))
     = length (filter (\<lambda>r. fst r = k) df)"
  by (induction df) auto

lemma sum_n_by_group:
  "sum_list (map snd (n_by_group_of df)) = length (filter (\<lambda>r. fst r \<noteq> NA) df)"
proof -
  let ?ls = "filter (\<lambda>g. g \<noteq> NA) (map fst df)"
  have "sum_list (map snd (n_by_group_of df))
      = sum_list (map (\<lambda>k. length (filter (\<lambda>r. fst r = k) df)) (sort_keys (unique ?ls)))"
    by (simp add: n_by_group_of_def group_keys_def comp_def length_group_values)
  also have "\<dots> = sum_list (map (\<lambda>k. length (filter (\<lambda>r. fst r = k) df)) (unique ?ls))"
    by (rule sum_sort_keys)
  also have "\<dots> = sum_list (map (\<lambda>k. length (filter (\<lambda>y. y = k) ?ls)) (unique ?ls))"
  proof (rule arg_cong[where f = sum_list], rule map_cong[OF refl])
    fix k assume "k \<in> set (unique ?ls)"
    then have "k \<noteq> NA" by (auto simp: set_unique)
    then show "length (filter (\<lambda>r. fst r = k) df) = length (filter (\<lambda>y. y = k) ?ls)"
      by (rule count_labels[symmetric])
  qed
  also have "\<dots> = length ?ls"
    by (rule sum_unique_count)
  also have "\<dots> = length (filter (\<lambda>r. fst r \<noteq> NA) df)"
    by (induction df) auto
  finally show ?thesis .
qed

lemma payload_of_Ok:
  assumes "run_stats L req = Inr (Ok out, st)" and "cleaned_table L req = Some df"
  shows "out_groups out = groups_of df" "out_n_by_group out = n_by_group_of df"
    "descriptives L df (form_param L req ''group'') (form_param L req ''value'')
       = Inr (out_descriptives out)"
    "out_requested_test out = str_lower L (form_param L req ''test'')" "st = 200"
  using run_stats_Ok[OF assms(1)] assms(2) by (auto simp: payload_def)

lemma payload_fields:
  "out_groups (payload L req df ds t) = groups_of df"
  "out_n_by_group (payload L req df ds t) = n_by_group_of df"
  "out_descriptives (payload L req df ds t) = ds"
  "out_test (payload L req df ds t) = t"
  by (simp_all add: payload_def)

text \<open>
  Claim C8. For the cleaned table \<open>df\<close> of a request, the list \<open>groups\<close> has no entry twice,
  its entries are the group labels of \<open>df\<close> that are not missing, and they stand in the
  order of their first appearance in \<open>df\<close>; \<open>n_by_group\<close> has one key per entry of
  \<open>groups\<close> and maps it to the number of rows of \<open>df\<close> with that label. These are the
  \<open>groups\<close> and \<open>n_by_group\<close> of the success payload.
\<close>

theorem C8_groups_and_counts:
  assumes "cleaned_table L req = Some df"
  shows "distinct (groups_of df)
    \<and> set (groups_of df) = fst ` set df - {NA}
    \<and> sorted_wrt (\<lambda>a b. first_pos a (map fst df) < first_pos b (map fst df)) (groups_of df)
    \<and> (\<forall>k \<in> set (groups_of df).
          map_of (n_by_group_of df) k = Some (length (filter (\<lambda>r. fst r = k) df)))
    \<and> distinct (map fst (n_by_group_of df))
    \<and> set (map fst (n_by_group_of df)) = set (groups_of df)
    \<and> (\<forall>out st. run_stats L req = Inr (Ok out, st) \<longrightarrow>
          out_groups out = groups_of df \<and> out_n_by_group out = n_by_group_of df)"
proof -
  let ?ls = "filter (\<lambda>g. g \<noteq> NA) (map fst df)"
  have "sorted_wrt (\<lambda>a b. first_pos a ?ls < first_pos b ?ls) (unique ?ls)"
    by (rule unique_first_order)
  then have ord: "sorted_wrt (\<lambda>a b. first_pos a (map fst df) < first_pos b (map fst df))
                   (groups_of df)"
    unfolding groups_of_def
  proof (rule sorted_wrt_mono_rel[rotated])
    fix a b
    assume a: "a \<in> set (unique ?ls)" and b: "b \<in> set (unique ?ls)"
      and lt: "first_pos a ?ls < first_pos b ?ls"
    from a b have "a \<noteq> NA" "a \<in> set (map fst df)" "b \<noteq> NA" "b \<in> set (map fst df)"
      by (auto simp: set_unique)
    from first_pos_filter[OF this] lt
    show "first_pos a (map fst df) < first_pos b (map fst df)" by simp
  qed
  have link: "\<forall>out st. run_stats L req = Inr (Ok out, st) \<longrightarrow>
          out_groups out = groups_of df \<and> out_n_by_group out = n_by_group_of df"
    using payload_of_Ok(1,2)[OF _ assms] by blast
  from ord link show ?thesis
    by (simp add: distinct_groups_of set_groups_of map_of_n_by_group keys_n_by_group
          distinct_group_keys set_group_keys)
qed

theorem C8_groups_and_counts_witness:
  "run_stats lib_ex (req_ex ''three.csv'' '' group'' ''value '' ''ANOVA'')
     = Inr (Ok (payload lib_ex (req_ex ''three.csv'' '' group'' ''value '' ''ANOVA'') cf_three
                  ds_three (Anova ''One-way ANOVA'' [] ''summary'')), 200)
   \<and> out_groups (payload lib_ex (req_ex ''three.csv'' '' group'' ''value '' ''ANOVA'') cf_three
                  ds_three (Anova ''One-way ANOVA'' [] ''summary''))
       = [Str ''B'', Str ''A'', Str ''C'']
   \<and> first_pos (Str ''B'') (map fst cf_three) < first_pos (Str ''A'') (map fst cf_three)
   \<and> first_pos (Str ''A'') (map fst cf_three) < first_pos (Str ''C'') (map fst cf_three)
   \<and> map_of (n_by_group_of cf_three) (Str ''B'') = Some 2
   \<and> out_n_by_group (payload lib_ex (req_ex ''three.csv'' '' group'' ''value '' ''ANOVA'')
                  cf_three ds_three (Anova ''One-way ANOVA'' [] ''summary''))
       = n_by_group_of cf_three"
  using C8_groups_and_counts[OF cleaned_three(1)] run_anova_three
  by (simp add: groups_three payload_fields) (simp add: cf_three_def)

text \<open>
  Claim C3, as stated, fails: on the first example upload the cleaned table has five rows,
  one of them with a missing group label, and the counts of \<open>n_by_group\<close> add up to four.
\<close>

theorem C3_counterexample:
  "cleaned_table lib_ex (req_ex ''three.csv'' '' group'' ''value '' ''ANOVA'') = Some cf_three
   \<and> run_stats lib_ex (req_ex ''three.csv'' '' group'' ''value '' ''ANOVA'')
     = Inr (Ok (payload lib_ex (req_ex ''three.csv'' '' group'' ''value '' ''ANOVA'') cf_three
                  ds_three (Anova ''One-way ANOVA'' [] ''summary'')), 200)
   \<and> sum_list (map snd (out_n_by_group
        (payload lib_ex (req_ex ''three.csv'' '' group'' ''value '' ''ANOVA'') cf_three
                  ds_three (Anova ''One-way ANOVA'' [] ''summary'')))) \<noteq> length cf_three"
  using cleaned_three(1) run_anova_three
  by (simp add: payload_fields n_by_group_three) (simp add: cf_three_def)

text \<open>
  Claim C3, amended. For the cleaned table \<open>df\<close> of a request, the counts of \<open>n_by_group\<close>
  add up to the number of rows of \<open>df\<close> whose group label is not missing; \<open>groupby\<close> counts
  a row with a missing label under no key.
\<close>

theorem C3_counted_rows:
  assumes "cleaned_table L req = Some df"
  shows "sum_list (map snd (n_by_group_of df)) = length (filter (\<lambda>r. fst r \<noteq> NA) df)
    \<and> (\<forall>out st. run_stats L req = Inr (Ok out, st) \<longrightarrow>
          sum_list (map snd (out_n_by_group out)) = length (filter (\<lambda>r. fst r \<noteq> NA) df))"
  using payload_of_Ok(2)[OF _ assms] by (simp add: sum_n_by_group)

theorem C3_counted_rows_witness:
  "run_stats lib_ex (req_ex ''three.csv'' '' group'' ''value '' ''ANOVA'')
     = Inr (Ok (payload lib_ex (req_ex ''three.csv'' '' group'' ''value '' ''ANOVA'') cf_three
                  ds_three (Anova ''One-way ANOVA'' [] ''summary'')), 200)
   \<and> sum_list (map snd (out_n_by_group
        (payload lib_ex (req_ex ''three.csv'' '' group'' ''value '' ''ANOVA'') cf_three
                  ds_three (Anova ''One-way ANOVA'' [] ''summary'')))) = 4
   \<and> length (filter (\<lambda>r. fst r \<noteq> NA) cf_three) = 4"
  using C3_counted_rows[OF cleaned_three(1)] run_anova_three
  by (simp add: payload_fields) (simp add: cf_three_def)

subsection \<open>One set of groups in the payload\<close>

lemma dropna_mem: "(g, Some x) \<in> set rs \<Longrightarrow> (g, x) \<in> set (dropna rs)"
  by (induction rs rule: dropna.induct) auto

lemma descriptives_Inr:
  assumes "descriptives L df g v = Inr ds"
  shows "ds = map (\<lambda>k. descr_row L k (group_values df k)) (group_keys df)"
  using assms by (simp add: descriptives_def split: if_splits)

lemma descr_row_fields:
  "d_Group (descr_row L k xs) = k"
  "d_n (descr_row L k xs) = length xs"
  "d_mean (descr_row L k xs) = agg_mean L xs"
  "d_std (descr_row L k xs) = agg_std L xs"
  "d_sem (descr_row L k xs)
     = fdiv L (agg_std L xs) (Some (round64 L (sqrt (real (max (length xs) 1)))))"
  "d_ci95_lo (descr_row L k xs)
     = fsub L (agg_mean L xs) (fmul L (Some (round64 L 1.96)) (d_sem (descr_row L k xs)))"
  "d_ci95_hi (descr_row L k xs)
     = fadd L (agg_mean L xs) (fmul L (Some (round64 L 1.96)) (d_sem (descr_row L k xs)))"
  by (simp_all add: descr_row_def Let_def agg_count_def)

lemma groups_of_descriptives:
  assumes "descriptives L df g v = Inr ds"
  shows "map d_Group ds = group_keys df"
  unfolding descriptives_Inr[OF assms] by (simp add: descr_row_fields comp_def)

lemma group_count_pos:
  assumes "k \<in> set (groups_of df)"
  shows "0 < length (group_values df k)"
proof -
  from assms obtain r where "r \<in> set df" "fst r = k"
    by (auto simp: set_groups_of)
  then have "r \<in> set (filter (\<lambda>r. fst r = k) df)" by simp
  then have "0 < length (filter (\<lambda>r. fst r = k) df)" by (rule length_pos_if_in_set)
  then show ?thesis by (simp add: group_values_def)
qed

lemma descriptives_mem:
  assumes "descriptives L df g v = Inr ds" and "d \<in> set ds"
  shows "\<exists>k xs. k \<in> set (groups_of df) \<and> xs = group_values df k \<and> xs \<noteq> []
           \<and> d = descr_row L k xs"
proof -
  from assms(2) obtain k where
    k: "k \<in> set (groups_of df)" "d = descr_row L k (group_values df k)"
    unfolding descriptives_Inr[OF assms(1)] by (auto simp: set_group_keys)
  from group_count_pos[OF k(1)] have "group_values df k \<noteq> []" by auto
  with k show ?thesis by blast
qed

lemma run_test_Ok_cases:
  assumes "run_test L t g v df gs (payload L req df ds) = Inr (Ok out, st)"
  shows "(\<exists>s p. t = ''ttest'' \<and> length gs = 2
            \<and> ttest_ind L (group_values df (gs ! 0)) (group_values df (gs ! 1)) = Inr (s, p)
            \<and> out_test out = Welch ''Welch t-test'' s p)
       \<or> (\<exists>tbl tukey. t = ''anova'' \<and> 3 \<le> length gs
            \<and> ols_anova_lm L (ols_formula g v) g v df = Inr tbl
            \<and> pairwise_tukeyhsd L (map snd df) (map fst df) = Inr tukey
            \<and> out_test out = Anova ''One-way ANOVA'' tbl tukey)
       \<or> (\<exists>H p dunn. t = ''kruskal'' \<and> 3 \<le> length gs
            \<and> kruskal L (map (group_values df) gs) = Inr (H, p)
            \<and> posthoc_dunn L df v g = Inr dunn
            \<and> out_test out = Kruskal name_kruskal H p dunn)"
  using assms
  by (auto simp: run_test_def json_error_def jsonify_def Let_def payload_def
           split: if_splits sum.splits prod.splits)

lemma run_stats_Ok_cases:
  assumes "run_stats L req = Inr (Ok out, st)" and "cleaned_table L req = Some df"
    and "g = form_param L req ''group''" and "v = form_param L req ''value''"
    and "t = str_lower L (form_param L req ''test'')"
  shows "(\<exists>s p. t = ''ttest'' \<and> length (groups_of df) = 2
            \<and> ttest_ind L (group_values df (groups_of df ! 0))
                           (group_values df (groups_of df ! 1)) = Inr (s, p)
            \<and> out_test out = Welch ''Welch t-test'' s p)
       \<or> (\<exists>tbl tukey. t = ''anova'' \<and> 3 \<le> length (groups_of df)
            \<and> ols_anova_lm L (ols_formula g v) g v df = Inr tbl
            \<and> pairwise_tukeyhsd L (map snd df) (map fst df) = Inr tukey
            \<and> out_test out = Anova ''One-way ANOVA'' tbl tukey)
       \<or> (\<exists>H p dunn. t = ''kruskal'' \<and> 3 \<le> length (groups_of df)
            \<and> kruskal L (map (group_values df) (groups_of df)) = Inr (H, p)
            \<and> posthoc_dunn L df v g = Inr dunn
            \<and> out_test out = Kruskal name_kruskal H p dunn)"
proof -
  note ds = payload_of_Ok(3)[OF assms(1,2)]
  from assms(1) run_stats_cleaned[OF assms(2) ds]
  have "run_test L t g v df (groups_of df) (payload L req df (out_descriptives out))
          = Inr (Ok out, st)"
    unfolding assms(3,4,5) by (auto simp: json_error_def split: sum.splits)
  from run_test_Ok_cases[OF this] show ?thesis .
qed

text \<open>
  Claim C9. In a success payload over the cleaned table \<open>df\<close>, the entries of \<open>groups\<close>, the
  keys of \<open>n_by_group\<close> and the \<open>Group\<close> fields of the descriptive records are one set: the
  labels of \<open>df\<close> that are not missing. A label is in it exactly when a row of \<open>df\<close> carries
  it, so every count and every \<open>n\<close> is positive, and a label all of whose rows were dropped
  is in none of the three. A row of the parsed table with a missing label and a numeric
  value is a row of \<open>df\<close>, and the procedures that take a whole table (the model fit with
  its ANOVA table, Tukey's procedure, Dunn's procedure) were called on \<open>df\<close> itself.
\<close>

theorem C9_same_groups:
  assumes "run_stats L req = Inr (Ok out, st)" and "cleaned_table L req = Some df"
    and "g = form_param L req ''group''" and "v = form_param L req ''value''"
  shows "set (out_groups out) = set (map fst (out_n_by_group out))
    \<and> set (out_groups out) = set (map d_Group (out_descriptives out))
    \<and> NA \<notin> set (out_groups out)
    \<and> (\<forall>k. k \<in> set (out_groups out) \<longleftrightarrow> k \<noteq> NA \<and> k \<in> fst ` set df)
    \<and> (\<forall>kc \<in> set (out_n_by_group out). 0 < snd kc)
    \<and> (\<forall>d \<in> set (out_descriptives out). 0 < d_n d)
    \<and> (\<forall>file df0 r x. files_file req = Some file \<and> read_csv L file = Inr df0
          \<and> r \<in> set (rows df0) \<and> cell_at df0 r g = NA
          \<and> to_numeric L (cell_at df0 r v) = Some x \<longrightarrow> (NA, x) \<in> set df)
    \<and> (\<forall>tn tbl tukey. out_test out = Anova tn tbl tukey \<longrightarrow>
          ols_anova_lm L (ols_formula g v) g v df = Inr tbl
          \<and> pairwise_tukeyhsd L (map snd df) (map fst df) = Inr tukey)
    \<and> (\<forall>tn H p dunn. out_test out = Kruskal tn H p dunn \<longrightarrow>
          posthoc_dunn L df v g = Inr dunn)"
proof -
  note po = payload_of_Ok[OF assms(1,2)]
  note ds = po(3)
  have a1: "set (out_groups out) = set (map fst (out_n_by_group out))"
    by (simp only: po keys_n_by_group set_group_keys)
  have a2: "set (out_groups out) = set (map d_Group (out_descriptives out))"
    by (simp only: po(1) groups_of_descriptives[OF ds] set_group_keys)
  have a3: "\<forall>k. k \<in> set (out_groups out) \<longleftrightarrow> k \<noteq> NA \<and> k \<in> fst ` set df"
    by (auto simp: po set_groups_of)
  have a4: "\<forall>kc \<in> set (out_n_by_group out). 0 < snd kc"
    using group_count_pos[of _ df]
    by (auto simp: po n_by_group_of_def set_group_keys)
  have a5: "\<forall>d \<in> set (out_descriptives out). 0 < d_n d"
  proof
    fix d assume "d \<in> set (out_descriptives out)"
    from descriptives_mem[OF ds this] obtain k xs where "xs \<noteq> []" "d = descr_row L k xs"
      by blast
    then show "0 < d_n d" by (simp add: descr_row_fields)
  qed
  have a6: "\<forall>file df0 r x. files_file req = Some file \<and> read_csv L file = Inr df0
          \<and> r \<in> set (rows df0) \<and> cell_at df0 r g = NA
          \<and> to_numeric L (cell_at df0 r v) = Some x \<longrightarrow> (NA, x) \<in> set df"
  proof (intro allI impI, elim conjE)
    fix fl df0 r x
    assume f: "files_file req = Some fl" "read_csv L fl = Inr df0"
      and r: "r \<in> set (rows df0)" "cell_at df0 r g = NA"
        "to_numeric L (cell_at df0 r v) = Some x"
    from assms(2) f have df: "df = dropna (map (\<lambda>r. (cell_at df0 r g,
                                    to_numeric L (cell_at df0 r v))) (rows df0))"
      by (auto simp: cleaned_table_def clean_def assms(3,4) split: if_splits)
    from r have "(NA, Some x) \<in> set (map (\<lambda>r. (cell_at df0 r g,
                                    to_numeric L (cell_at df0 r v))) (rows df0))"
      by force
    from dropna_mem[OF this] df show "(NA, x) \<in> set df" by simp
  qed
  from run_stats_Ok_cases[OF assms(1,2,3,4) refl]
  have a7: "\<forall>tn tbl tukey. out_test out = Anova tn tbl tukey \<longrightarrow>
          ols_anova_lm L (ols_formula g v) g v df = Inr tbl
          \<and> pairwise_tukeyhsd L (map snd df) (map fst df) = Inr tukey"
    and a8: "\<forall>tn H p dunn. out_test out = Kruskal tn H p dunn \<longrightarrow>
          posthoc_dunn L df v g = Inr dunn"
    by auto
  from a3 have a3': "NA \<notin> set (out_groups out)" by blast
  from a1 a2 a3' a3 a4 a5 a6 a7 a8 show ?thesis by blast
qed

theorem C9_same_groups_witness:
  "run_stats lib_ex (req_ex ''three.csv'' '' group'' ''value '' ''ANOVA'')
     = Inr (Ok (payload lib_ex (req_ex ''three.csv'' '' group'' ''value '' ''ANOVA'') cf_three
                  ds_three (Anova ''One-way ANOVA'' [] ''summary'')), 200)
   \<and> set (out_groups (payload lib_ex (req_ex ''three.csv'' '' group'' ''value '' ''ANOVA'')
                  cf_three ds_three (Anova ''One-way ANOVA'' [] ''summary'')))
       = {Str ''A'', Str ''B'', Str ''C''}
   \<and> set (map fst (out_n_by_group (payload lib_ex
                  (req_ex ''three.csv'' '' group'' ''value '' ''ANOVA'')
                  cf_three ds_three (Anova ''One-way ANOVA'' [] ''summary''))))
       = {Str ''A'', Str ''B'', Str ''C''}
   \<and> set (map d_Group (out_descriptives (payload lib_ex
                  (req_ex ''three.csv'' '' group'' ''value '' ''ANOVA'')
                  cf_three ds_three (Anova ''One-way ANOVA'' [] ''summary''))))
       = {Str ''A'', Str ''B'', Str ''C''}
   \<and> (NA, Fin 7) \<in> set cf_three
   \<and> ols_anova_lm lib_ex (ols_formula ''group'' ''value'') ''group'' ''value'' cf_three = Inr []"
proof -
  let ?P = "payload lib_ex (req_ex ''three.csv'' '' group'' ''value '' ''ANOVA'') cf_three
              ds_three (Anova ''One-way ANOVA'' [] ''summary'')"
  have three: "[Num (Fin 3), NA, Num (Fin 7)] \<in> set (rows df_three)"
    "cell_at df_three [Num (Fin 3), NA, Num (Fin 7)] ''group'' = NA"
    "to_numeric lib_ex (cell_at df_three [Num (Fin 3), NA, Num (Fin 7)] ''value'')
       = Some (Fin 7)"
    by (simp_all add: df_three_def cell_at_def col_index_def)
  note c9 = C9_same_groups[OF run_anova_three cleaned_three(1) refl refl]
  from c9 have "set (out_groups ?P) = set (map fst (out_n_by_group ?P))"
    and "set (out_groups ?P) = set (map d_Group (out_descriptives ?P))"
    by blast+
  moreover have "set (out_groups ?P) = {Str ''A'', Str ''B'', Str ''C''}"
    by (auto simp: payload_fields groups_three)
  moreover from c9 three have "(NA, Fin 7) \<in> set cf_three"
    by (simp add: ex_simps)
  moreover from c9 have "ols_anova_lm lib_ex (ols_formula ''group'' ''value'') ''group''
      ''value'' cf_three = Inr []"
    by (simp add: ex_simps payload_fields)
  ultimately show ?thesis using run_anova_three by simp
qed

subsection \<open>Rows whose value does not parse\<close>

lemma dropna_append: "dropna (a @ b) = dropna a @ dropna b"
  by (induction a rule: dropna.induct) auto

lemma cell_at_columns: "columns df = columns df' \<Longrightarrow> cell_at df r c = cell_at df' r c"
  by (simp add: cell_at_def col_index_def)

lemma with_upload_simps [simp]:
  "read_csv (with_upload L fl d) fl = Inr d"
  "str_strip (with_upload L fl d) = str_strip L"
  "str_lower (with_upload L fl d) = str_lower L"
  "form_param (with_upload L fl d) req k = form_param L req k"
  "fadd (with_upload L fl d) = fadd L" "fsub (with_upload L fl d) = fsub L"
  "fmul (with_upload L fl d) = fmul L" "fdiv (with_upload L fl d) = fdiv L"
  by (simp_all add: with_upload_def form_param_def fun_eq_iff fadd_def fsub_def fmul_def
        fdiv_def split: option.splits)

lemma to_numeric_with_upload [simp]: "to_numeric (with_upload L fl d) c = to_numeric L c"
  by (cases c) (simp_all add: with_upload_def)

lemma descriptives_with_upload [simp]:
  "descriptives (with_upload L fl d) df g v = descriptives L df g v"
proof -
  have "descr_row (with_upload L fl d) k xs = descr_row L k xs" for k xs
    by (simp add: descr_row_def agg_mean_def agg_std_def) (simp add: with_upload_def)
  then show ?thesis by (simp add: descriptives_def)
qed

lemma run_test_with_upload [simp]:
  "run_test (with_upload L fl d) t g v df gs mk = run_test L t g v df gs mk"
  by (simp add: run_test_def with_upload_def split: sum.splits prod.splits)

lemma clean_without_row:
  assumes "to_numeric L (cell_at \<lparr>columns = cs, rows = xs @ r # ys\<rparr> r v) = None"
    and "str_to_float L' = str_to_float L"
  shows "clean L \<lparr>columns = cs, rows = xs @ r # ys\<rparr> g v
       = clean L' \<lparr>columns = cs, rows = xs @ ys\<rparr> g v"
proof -
  have tn: "to_numeric L' c = to_numeric L c" for c
    using assms(2) by (cases c) simp_all
  have ca: "cell_at \<lparr>columns = cs, rows = xs @ r # ys\<rparr> q c
          = cell_at \<lparr>columns = cs, rows = xs @ ys\<rparr> q c" for q c
    by (rule cell_at_columns) simp
  from assms(1) show ?thesis
    by (simp add: clean_def dropna_append tn ca)
qed

text \<open>
  Claim C4. Let the upload parse to a table with a row \<open>r\<close> whose entry in the value column
  is NaN after the numeric coercion (a missing entry, or a string that does not parse).
  Then the response is the response to the same request were the upload parsed to the
  table without \<open>r\<close>, and the cleaned table is the same: the row raises no error and is
  in no group list, count, descriptive record or argument of a test.
\<close>

theorem C4_unparsable_row_dropped:
  assumes "files_file req = Some fl"
    and "read_csv L fl = Inr \<lparr>columns = cs, rows = xs @ r # ys\<rparr>"
    and "to_numeric L (cell_at \<lparr>columns = cs, rows = xs @ r # ys\<rparr> r
           (form_param L req ''value'')) = None"
  shows "run_stats L req = run_stats (with_upload L fl \<lparr>columns = cs, rows = xs @ ys\<rparr>) req
    \<and> cleaned_table L req
        = cleaned_table (with_upload L fl \<lparr>columns = cs, rows = xs @ ys\<rparr>) req"
proof -
  let ?L' = "with_upload L fl \<lparr>columns = cs, rows = xs @ ys\<rparr>"
  have s: "str_to_float ?L' = str_to_float L" by (simp add: with_upload_def)
  note cl = clean_without_row[OF assms(3) s]
  have "run_stats L req = run_stats ?L' req"
    by (simp add: run_stats_def assms(1,2) cl Let_def cong: sum.case_cong)
  moreover have "cleaned_table L req = cleaned_table ?L' req"
    by (simp add: cleaned_table_def assms(1,2) cl)
  ultimately show ?thesis by simp
qed

theorem C4_unparsable_row_dropped_witness:
  "run_stats lib_ex (req_ex ''three.csv'' '' group'' ''value '' ''ANOVA'')
     = run_stats (with_upload lib_ex ''three.csv''
         \<lparr>columns = [''id'', ''group'', ''value''],
          rows = [[Num (Fin 1), Str ''B'', Num (Fin 3)], [Num (Fin 2), Str ''A'', Num (Fin 1)],
                  [Num (Fin 3), NA, Num (Fin 7)], [Num (Fin 5), Str ''B'', Str ''5''],
                  [Num (Fin 6), Str ''C'', Num (Fin 2)]]\<rparr>)
         (req_ex ''three.csv'' '' group'' ''value '' ''ANOVA'')
   \<and> run_stats lib_ex (req_ex ''three.csv'' '' group'' ''value '' ''ANOVA'')
     = Inr (Ok (payload lib_ex (req_ex ''three.csv'' '' group'' ''value '' ''ANOVA'') cf_three
                  ds_three (Anova ''One-way ANOVA'' [] ''summary'')), 200)
   \<and> to_numeric lib_ex (Str ''n/a'') = None"
proof -
  have np: "to_numeric lib_ex (Str ''n/a'') = None"
    by (simp add: str_to_float_ex)
  have tbl: "read_csv lib_ex ''three.csv'' =
      Inr \<lparr>columns = [''id'', ''group'', ''value''],
           rows = [[Num (Fin 1), Str ''B'', Num (Fin 3)], [Num (Fin 2), Str ''A'', Num (Fin 1)],
                   [Num (Fin 3), NA, Num (Fin 7)]]
                  @ [Num (Fin 4), Str ''A'', Str ''n/a'']
                  # [[Num (Fin 5), Str ''B'', Str ''5''], [Num (Fin 6), Str ''C'', Num (Fin 2)]]\<rparr>"
    by (simp add: ex_simps df_three_def)
  have cell: "to_numeric lib_ex (cell_at \<lparr>columns = [''id'', ''group'', ''value''],
           rows = [[Num (Fin 1), Str ''B'', Num (Fin 3)], [Num (Fin 2), Str ''A'', Num (Fin 1)],
                   [Num (Fin 3), NA, Num (Fin 7)]]
                  @ [Num (Fin 4), Str ''A'', Str ''n/a'']
                  # [[Num (Fin 5), Str ''B'', Str ''5''], [Num (Fin 6), Str ''C'', Num (Fin 2)]]\<rparr>
           [Num (Fin 4), Str ''A'', Str ''n/a'']
           (form_param lib_ex (req_ex ''three.csv'' '' group'' ''value '' ''ANOVA'') ''value''))
        = None"
    by (simp add: ex_simps cell_at_def col_index_def str_to_float_ex)
  from C4_unparsable_row_dropped[OF files_file_req_ex tbl cell] run_anova_three np
  show ?thesis by simp
qed

subsection \<open>Validation failures\<close>

text \<open>
  Claim C6. When a request has a file, the three parameters and a table that parses, and
  the requested group column or the requested value column, trimmed by \<open>str.strip\<close>, is
  not in the header of the table, the response is the failure payload
  \<open>Column not found in CSV.\<close> with status 400; its entry \<open>columns\<close> is the whole header,
  and its entries \<open>group_requested\<close> and \<open>value_requested\<close> are the two requested names.
\<close>

theorem C6_column_not_found:
  assumes "files_file req = Some file"
    and "g = form_param L req ''group''" and "v = form_param L req ''value''"
    and "g \<noteq> []" and "v \<noteq> []" and "str_lower L (form_param L req ''test'') \<noteq> []"
    and "read_csv L file = Inr df0"
    and "g \<notin> set (columns df0) \<or> v \<notin> set (columns df0)"
  shows "run_stats L req =
           Inr (Err ''Column not found in CSV.''
                  [(''columns'', DStrs (columns df0)), (''group_requested'', DStr g),
                   (''value_requested'', DStr v)], 400)"
  using assms by (auto simp: run_stats_def json_error_def Let_def)

theorem C6_column_not_found_witness:
  "run_stats lib_ex (req_ex ''three.csv'' ''grp'' ''value'' ''anova'') =
     Inr (Err ''Column not found in CSV.''
            [(''columns'', DStrs [''id'', ''group'', ''value'']),
             (''group_requested'', DStr ''grp''), (''value_requested'', DStr ''value'')], 400)"
  using C6_column_not_found[of "req_ex ''three.csv'' ''grp'' ''value'' ''anova''" "''three.csv''"
      "''grp''" lib_ex "''value''" df_three]
  by (simp add: ex_simps)

subsection \<open>Failures and their payloads\<close>

text \<open>
  Claim C5. A request that names one existing column as both group and value column passes
  the validation of lines 83--100; the cleaning of lines 103--105 then raises, outside
  every \<open>try\<close> of the handler, and the exception leaves the handler: no payload with
  \<open>ok: false\<close> is returned.
\<close>

theorem C5_uncaught_exception:
  "run_stats lib_ex (req_ex ''three.csv'' ''value'' ''value'' ''ttest'') =
     Inl ''TypeError: arg must be a list, tuple, 1-d array, or Series''"
  by (simp add: run_stats_def ex_simps clean_def)

theorem C5_uncaught_exception_witness:
  "\<not> (\<exists>b st. run_stats lib_ex (req_ex ''three.csv'' ''value'' ''value'' ''ttest'') = Inr (b, st))"
  using C5_uncaught_exception by simp

text \<open>A request whose group and value column differ and whose group column is none of the
  columns of the aggregated table gets a payload: a success with status 200, a validation
  failure with status 400, or the failure of status 500 carrying the text of the exception
  raised during the analysis.\<close>

lemma run_stats_structured:
  assumes "form_param L req ''group'' \<noteq> form_param L req ''value''"
    and "form_param L req ''group'' \<notin> set descr_columns"
  shows "\<exists>b st. run_stats L req = Inr (b, st)
     \<and> (body_ok b \<and> st = 200 \<or> \<not> body_ok b \<and> st = 400
        \<or> (\<exists>e. b = Err ''Exception during analysis.'' [(''detail'', DStr e)]) \<and> st = 500)"
proof (cases "cleaned_table L req")
  case None
  with assms(1) show ?thesis
    by (auto simp: cleaned_table_def run_stats_def json_error_def clean_def Let_def
             split: option.splits if_splits sum.splits)
next
  case (Some df)
  from assms(2) obtain ds where
    "descriptives L df (form_param L req ''group'') (form_param L req ''value'') = Inr ds"
    by (simp add: descriptives_def)
  from run_stats_cleaned[OF Some this] show ?thesis
    by (auto simp: run_test_def json_error_def jsonify_def Let_def
             split: sum.splits prod.splits)
qed

subsection \<open>The dispatch\<close>

lemma length_groups_card: "length (groups_of df) = card (fst ` set df - {NA})"
proof -
  have "set (groups_of df) = fst ` set df - {NA}"
    by (auto simp: groups_of_def set_unique)
  moreover have "distinct (groups_of df)"
    by (simp add: groups_of_def distinct_unique)
  ultimately show ?thesis
    using distinct_card[of "groups_of df"] by simp
qed


lemma descriptives_n: "descriptives L df ''n'' v = Inl ''ValueError: cannot insert n, already exists''"
  by (simp add: descriptives_def descr_columns_def)

text \<open>
  Claim C1. A request for \<open>anova\<close> on an upload with two groups whose group column is named
  \<open>n\<close> has a cleaned table, and the claim gives it the failure payload of status 400 with
  the group list. The handler computes the descriptive records on line 115, before the
  dispatch and outside every \<open>try\<close>; \<open>reset_index\<close> on line 60 raises there, since the
  aggregated table already has a column \<open>n\<close>, and the exception leaves the handler.
\<close>

theorem C1_raises_before_dispatch:
  "cleaned_table lib_ex (req_ex ''n.csv'' ''n'' ''value'' ''anova'') = Some cf_two
   \<and> str_lower lib_ex (form_param lib_ex (req_ex ''n.csv'' ''n'' ''value'' ''anova'') ''test'')
       = ''anova''
   \<and> length (groups_of cf_two) < 3
   \<and> run_stats lib_ex (req_ex ''n.csv'' ''n'' ''value'' ''anova'')
       = Inl ''ValueError: cannot insert n, already exists''"
proof -
  have "descriptives lib_ex cf_two
      (form_param lib_ex (req_ex ''n.csv'' ''n'' ''value'' ''anova'') ''group'')
      (form_param lib_ex (req_ex ''n.csv'' ''n'' ''value'' ''anova'') ''value'')
      = Inl ''ValueError: cannot insert n, already exists''"
    by (simp add: ex_simps descriptives_n)
  from run_stats_raises[OF cleaned_n(1) this] cleaned_n(1) show ?thesis
    by (simp add: ex_simps groups_two)
qed

theorem C1_raises_before_dispatch_witness:
  "\<not> (\<exists>b st. run_stats lib_ex (req_ex ''n.csv'' ''n'' ''value'' ''anova'') = Inr (b, st))"
  using C1_raises_before_dispatch by simp




subsection \<open>descriptives\<close>

lemma length_insert_key: "length (insert_key k xs) = Suc (length xs)"
  by (induction xs) auto

lemma length_sort_keys: "length (sort_keys ks) = length ks"
  by (induction ks) (auto simp: length_insert_key)

lemma float_ops_NaN [simp]:
  "fadd L x None = None" "fadd L None y = None" "fsub L x None = None" "fsub L None y = None"
  "fmul L x None = None" "fmul L None y = None" "fdiv L x None = None" "fdiv L None y = None"
  by (simp_all add: fadd_def fsub_def fmul_def fdiv_def split: option.splits)

text \<open>When \<open>descriptives\<close> returns, it returns one record per entry of \<open>groups\<close>; every
  record has \<open>n\<close> at least 1, and for a group of one row the fields \<open>std\<close>, \<open>sem\<close>,
  \<open>ci95_lo\<close> and \<open>ci95_hi\<close> are NaN, the missing marker.\<close>

lemma descriptives_one_row:
  assumes "descriptives L df g v = Inr ds"
  shows "length ds = length (groups_of df)
    \<and> (\<forall>d \<in> set ds. 1 \<le> d_n d
          \<and> (d_n d = 1 \<longrightarrow>
                d_std d = None \<and> d_sem d = None \<and> d_ci95_lo d = None \<and> d_ci95_hi d = None))"
proof -
  have len: "length ds = length (groups_of df)"
    unfolding descriptives_Inr[OF assms] by (simp add: group_keys_sort length_sort_keys)
  have "1 \<le> d_n d
          \<and> (d_n d = 1 \<longrightarrow>
                d_std d = None \<and> d_sem d = None \<and> d_ci95_lo d = None \<and> d_ci95_hi d = None)"
    if "d \<in> set ds" for d
  proof -
    from descriptives_mem[OF assms that] obtain k xs where
      d: "d = descr_row L k xs" and xs: "xs \<noteq> []" by blast
    from xs have n: "1 \<le> length xs" by (cases xs) auto
    have one: "length xs = 1 \<longrightarrow> agg_std L xs = None"
      by (simp add: agg_std_def)
    show ?thesis
      unfolding d descr_row_fields using n one by auto
  qed
  with len show ?thesis by blast
qed

text \<open>
  Claim C10. \<open>descriptives\<close> raises on a cleaned table whose group column is named \<open>n\<close>:
  \<open>reset_index\<close> on line 60 cannot insert the index as a column \<open>n\<close>, which the
  aggregated table already has. The call on line 115 is outside every \<open>try\<close>, so the
  request gets no payload.
\<close>

theorem C10_descriptives_raises:
  "descriptives lib_ex cf_two ''n'' ''value''
     = Inl ''ValueError: cannot insert n, already exists''
   \<and> cleaned_table lib_ex (req_ex ''n.csv'' ''n'' ''value'' ''ttest'') = Some cf_two
   \<and> run_stats lib_ex (req_ex ''n.csv'' ''n'' ''value'' ''ttest'')
       = Inl ''ValueError: cannot insert n, already exists''"
proof -
  have "descriptives lib_ex cf_two
      (form_param lib_ex (req_ex ''n.csv'' ''n'' ''value'' ''ttest'') ''group'')
      (form_param lib_ex (req_ex ''n.csv'' ''n'' ''value'' ''ttest'') ''value'')
      = Inl ''ValueError: cannot insert n, already exists''"
    by (simp add: ex_simps descriptives_n)
  from run_stats_raises[OF cleaned_n(2) this] cleaned_n(2) show ?thesis
    by (simp add: descriptives_n)
qed

theorem C10_descriptives_raises_witness:
  "\<not> (\<exists>ds. descriptives lib_ex cf_two ''n'' ''value'' = Inr ds)
   \<and> \<not> (\<exists>b st. run_stats lib_ex (req_ex ''n.csv'' ''n'' ''value'' ''ttest'') = Inr (b, st))"
  using C10_descriptives_raises by simp

text \<open>
  Claim C2, as stated, fails: for the one-row group \<open>A\<close> of the first example upload
  \<open>ci95_hi - mean\<close> and \<open>mean - ci95_lo\<close> are both NaN, and NaN equals nothing.
\<close>

theorem C2_counterexample:
  "run_stats lib_ex (req_ex ''three.csv'' '' group'' ''value '' ''ANOVA'')
     = Inr (Ok (payload lib_ex (req_ex ''three.csv'' '' group'' ''value '' ''ANOVA'') cf_three
                  ds_three (Anova ''One-way ANOVA'' [] ''summary'')), 200)
   \<and> \<lparr>d_Group = Str ''A'', d_mean = Some (Fin 1), d_std = None, d_n = 1, d_sem = None,
       d_ci95_lo = None, d_ci95_hi = None\<rparr>
       \<in> set (out_descriptives (payload lib_ex
                  (req_ex ''three.csv'' '' group'' ''value '' ''ANOVA'') cf_three
                  ds_three (Anova ''One-way ANOVA'' [] ''summary'')))
   \<and> \<not> feq (fsub lib_ex None (Some (Fin 1))) (fsub lib_ex (Some (Fin 1)) None)"
  using run_anova_three by (simp add: payload_fields ds_three_def)

text \<open>
  Claim C2, amended. For every descriptive record of a success payload, \<open>sem\<close> is the float
  quotient of \<open>std\<close> by \<open>sqrt(max(n, 1))\<close>, \<open>ci95_lo\<close> is the float \<open>mean - 1.96 * sem\<close>
  and \<open>ci95_hi\<close> the float \<open>mean + 1.96 * sem\<close>. When the mean and the half-width
  \<open>h = 1.96 * sem\<close> are finite, the two bounds are the roundings of \<open>mean - h\<close> and
  \<open>mean + h\<close>: the interval is symmetric around the mean up to that rounding. When \<open>std\<close>
  is NaN, as for every group of one row, \<open>sem\<close> and both bounds are NaN, and
  \<open>ci95_hi - mean\<close> and \<open>mean - ci95_lo\<close> are NaN and not equal.
\<close>

theorem C2_interval_formulas:
  assumes "run_stats L req = Inr (Ok out, st)" and "d \<in> set (out_descriptives out)"
  shows "d_sem d = fdiv L (d_std d) (Some (round64 L (sqrt (real (max (d_n d) 1)))))
    \<and> d_ci95_lo d = fsub L (d_mean d) (fmul L (Some (round64 L 1.96)) (d_sem d))
    \<and> d_ci95_hi d = fadd L (d_mean d) (fmul L (Some (round64 L 1.96)) (d_sem d))
    \<and> (\<forall>m h. d_mean d = Some (Fin m)
           \<and> fmul L (Some (round64 L 1.96)) (d_sem d) = Some (Fin h) \<longrightarrow>
          d_ci95_lo d = Some (round64 L (m - h)) \<and> d_ci95_hi d = Some (round64 L (m + h)))
    \<and> (d_n d = 1 \<longrightarrow> d_std d = None)
    \<and> (d_std d = None \<longrightarrow>
          d_sem d = None \<and> d_ci95_lo d = None \<and> d_ci95_hi d = None
          \<and> \<not> feq (fsub L (d_ci95_hi d) (d_mean d)) (fsub L (d_mean d) (d_ci95_lo d)))"
proof -
  from run_stats_Ok[OF assms(1)] obtain df where
    df: "cleaned_table L req = Some df" by blast
  note ds = payload_of_Ok(3)[OF assms(1) df]
  from descriptives_mem[OF ds assms(2)] obtain k xs where
    d: "d = descr_row L k xs" and xs: "xs \<noteq> []" by blast
  have f1: "d_sem d = fdiv L (d_std d) (Some (round64 L (sqrt (real (max (d_n d) 1)))))"
    and f2: "d_ci95_lo d = fsub L (d_mean d) (fmul L (Some (round64 L 1.96)) (d_sem d))"
    and f3: "d_ci95_hi d = fadd L (d_mean d) (fmul L (Some (round64 L 1.96)) (d_sem d))"
    unfolding d by (simp_all add: descr_row_fields)
  have f4: "\<forall>m h. d_mean d = Some (Fin m)
           \<and> fmul L (Some (round64 L 1.96)) (d_sem d) = Some (Fin h) \<longrightarrow>
          d_ci95_lo d = Some (round64 L (m - h)) \<and> d_ci95_hi d = Some (round64 L (m + h))"
    unfolding f2 f3 by (auto simp: fsub_def fadd_def)
  have f5: "d_n d = 1 \<longrightarrow> d_std d = None"
    unfolding d by (simp add: descr_row_fields agg_std_def)
  have f6: "d_std d = None \<longrightarrow>
          d_sem d = None \<and> d_ci95_lo d = None \<and> d_ci95_hi d = None
          \<and> \<not> feq (fsub L (d_ci95_hi d) (d_mean d)) (fsub L (d_mean d) (d_ci95_lo d))"
    unfolding f2 f3 f1 by simp
  from f1 f2 f3 f4 f5 f6 show ?thesis by blast
qed

theorem C2_interval_formulas_witness:
  "run_stats lib_ex (req_ex ''three.csv'' '' group'' ''value '' ''ANOVA'')
     = Inr (Ok (payload lib_ex (req_ex ''three.csv'' '' group'' ''value '' ''ANOVA'') cf_three
                  ds_three (Anova ''One-way ANOVA'' [] ''summary'')), 200)
   \<and> \<lparr>d_Group = Str ''B'', d_mean = Some (Fin 4), d_std = Some (Fin (sqrt 2)), d_n = 2,
       d_sem = Some (Fin 1), d_ci95_lo = Some (Fin 2.04), d_ci95_hi = Some (Fin 5.96)\<rparr>
       \<in> set (out_descriptives (payload lib_ex
                  (req_ex ''three.csv'' '' group'' ''value '' ''ANOVA'') cf_three
                  ds_three (Anova ''One-way ANOVA'' [] ''summary'')))
   \<and> fdiv lib_ex (Some (Fin (sqrt 2))) (Some (round64 lib_ex (sqrt (real (max 2 1)))))
       = Some (Fin 1)
   \<and> fmul lib_ex (Some (round64 lib_ex 1.96)) (Some (Fin 1)) = Some (Fin 1.96)
   \<and> round64 lib_ex (4 - 1.96) = Fin 2.04 \<and> round64 lib_ex (4 + 1.96) = Fin 5.96"
proof -
  have mem: "\<lparr>d_Group = Str ''B'', d_mean = Some (Fin 4), d_std = Some (Fin (sqrt 2)), d_n = 2,
       d_sem = Some (Fin 1), d_ci95_lo = Some (Fin 2.04), d_ci95_hi = Some (Fin 5.96)\<rparr>
       \<in> set (out_descriptives (payload lib_ex
                  (req_ex ''three.csv'' '' group'' ''value '' ''ANOVA'') cf_three
                  ds_three (Anova ''One-way ANOVA'' [] ''summary'')))"
    by (simp add: payload_fields ds_three_def)
  from C2_interval_formulas[OF run_anova_three mem] mem run_anova_three
  show ?thesis by (simp add: float_ops_ex)
qed

end
